theory Spec2Isabelle
  imports Main
begin

section \<open>Data model\<close>

text \<open>
  The comparators of \<^verbatim>\<open>src/comparator/field_comparator.py\<close> and
  \<^verbatim>\<open>src/comparator/enum_value_comparator.py\<close> read wrapper objects
  (\<^verbatim>\<open>Field\<close>, \<^verbatim>\<open>EnumValue\<close>, \<^verbatim>\<open>WithLocation\<close>),
  query a resource database and append to a finding container. The records below hold exactly
  the attributes the two comparators read.
\<close>

datatype change_type = MAJOR | MINOR | PATCH

datatype finding_category =
    FIELD_ADDITION
  | FIELD_REMOVAL
  | FIELD_NAME_CHANGE
  | FIELD_REPEATED_CHANGE
  | FIELD_BEHAVIOR_CHANGE
  | FIELD_TYPE_CHANGE
  | FIELD_ONEOF_REMOVAL
  | FIELD_ONEOF_ADDITION
  | FIELD_PROTO3_OPTIONAL_CHANGE
  | RESOURCE_REFERENCE_ADDITION
  | RESOURCE_REFERENCE_REMOVAL
  | RESOURCE_REFERENCE_CHANGE
  | ENUM_VALUE_ADDITION
  | ENUM_VALUE_REMOVAL
  | ENUM_VALUE_NAME_CHANGE

text \<open>
  Modelled from the spec: the \<^verbatim>\<open>Finding\<close> record of \<^verbatim>\<open>src/findings\<close>
  (category, severity, message, file, line) and the append-only accumulator.
  \<^verbatim>\<open>addFinding\<close> takes the keyword arguments in the order the comparators write them.
\<close>

record finding =
  category :: finding_category
  finding_file :: string
  finding_line :: int
  message :: string
  severity :: change_type

definition addFinding ::
  "finding_category \<Rightarrow> string \<Rightarrow> int \<Rightarrow> string \<Rightarrow> change_type \<Rightarrow> finding list \<Rightarrow> finding list" where
  "addFinding cat proto_file source_line msg ct fc =
     fc @ [\<lparr>category = cat, finding_file = proto_file, finding_line = source_line,
             message = msg, severity = ct\<rparr>]"

text \<open>
  Modelled from the spec: the wrapper layer of \<^verbatim>\<open>src/comparator/wrappers.py\<close>.
  An attribute wrapped with its location is read through \<^verbatim>\<open>.value\<close> and
  \<^verbatim>\<open>.source_code_line\<close>; an optional attribute is \<open>None\<close> when absent, and a
  present wrapper object is truthy.
\<close>

record 'a with_location =
  loc_value :: 'a
  loc_source_code_line :: int

text \<open>The annotation \<^verbatim>\<open>google.api.resource_reference\<close>: attributes \<^verbatim>\<open>type\<close>
  and \<^verbatim>\<open>child_type\<close>, each an optional string.\<close>

record resource_reference_pb =
  ref_type :: "string option"
  ref_child_type :: "string option"

record resource_pb =
  res_type :: string
  res_pattern :: "string list"

type_synonym resource = "resource_pb with_location"

text \<open>
  A resource database is an object the comparator only calls methods on. Python looks a method
  up by name and raises \<^verbatim>\<open>AttributeError\<close> when the object has none of that name, so the
  object is its method table: a method name is mapped to the query it runs, or to \<open>None\<close>.
  Every query takes one (possibly absent) type name and returns resource definitions.
\<close>

type_synonym resource_database = "string \<Rightarrow> (string option \<Rightarrow> resource list) option"

record map_entry =
  map_key :: string
  map_value :: string

text \<open>
  The attribute \<^verbatim>\<open>oneof\<close> is the membership flag the test suite builds
  (\<^verbatim>\<open>make_field(name="Foo", oneof=True)\<close>); \<^verbatim>\<open>child_type\<close> is the
  discriminant flag of the field's resource reference.
\<close>

record field =
  name :: string
  proto_file_name :: string
  source_code_line :: int
  repeated :: "bool with_location"
  required :: "bool with_location"
  proto_type :: "string with_location"
  type_name :: "string with_location option"
  is_map_type :: bool
  map_entry_type :: "map_entry option"
  oneof :: bool
  proto3_optional :: bool
  resource_reference :: "resource_reference_pb with_location option"
  child_type :: bool
  api_version :: "string option"
  message_resource :: "resource option"
  resource_database :: "resource_database option"

record enum_value =
  ev_name :: string
  ev_proto_file_name :: string
  ev_source_code_line :: int

section \<open>Python values\<close>

datatype error = AttributeError string | TypeError string

datatype outcome = Returned | Raised error

text \<open>Truthiness of an optional string: \<open>None\<close> and the empty string are falsy.\<close>

definition truthy :: "string option \<Rightarrow> bool" where
  "truthy s = (case s of None \<Rightarrow> False | Some x \<Rightarrow> x \<noteq> [])"

text \<open>\<^verbatim>\<open>a or b\<close> on optional strings.\<close>

definition py_or :: "string option \<Rightarrow> string option \<Rightarrow> string option" where
  "py_or a b = (if truthy a then a else b)"

text \<open>An optional string formatted inside an f-string.\<close>

definition py_str :: "string option \<Rightarrow> string" where
  "py_str s = (case s of None \<Rightarrow> ''None'' | Some x \<Rightarrow> x)"

text \<open>
  \<^verbatim>\<open>s.replace(old, new)\<close>: every non-overlapping occurrence of \<open>old\<close> in \<open>s\<close>,
  found from the left, is replaced by \<open>new\<close>. An empty \<open>old\<close> matches before every
  character and at the end.
\<close>

function replace_nonempty :: "string \<Rightarrow> string \<Rightarrow> string \<Rightarrow> string" where
  "replace_nonempty old new s =
     (if old = [] \<or> s = [] then s
      else if take (length old) s = old
        then new @ replace_nonempty old new (drop (length old) s)
        else hd s # replace_nonempty old new (tl s))"
  by pat_completeness auto
termination
  by (relation "measure (\<lambda>(old, new, s). length s)") (auto simp: neq_Nil_conv)

definition py_replace :: "string \<Rightarrow> string \<Rightarrow> string \<Rightarrow> string" where
  "py_replace s old new =
     (if old = [] then new @ concat (map (\<lambda>c. c # new) s) else replace_nonempty old new s)"

text \<open>A method call \<^verbatim>\<open>rb.m(arg)\<close> on a possibly absent database object.\<close>

definition call_method ::
  "resource_database option \<Rightarrow> string \<Rightarrow> string option \<Rightarrow> error + resource list" where
  "call_method rb m arg =
     (case rb of
        None \<Rightarrow> Inl (AttributeError m)
      | Some db \<Rightarrow> (case db m of None \<Rightarrow> Inl (AttributeError m) | Some q \<Rightarrow> Inr (q arg)))"

section \<open>FieldComparator\<close>

text \<open>
  Every method below takes the two fields the comparator holds (both present once
  \<^verbatim>\<open>compare\<close> has passed its first two checks) and, where it appends findings, the
  finding container; it returns how the call ended together with the container.
\<close>

definition transformed_type_name :: "field \<Rightarrow> field \<Rightarrow> string \<Rightarrow> error + string option" where
  "transformed_type_name field_original field_update tn =
     (case api_version field_original of
        None \<Rightarrow> Inr None
      | Some api_version_original \<Rightarrow>
          if api_version_original = [] then Inr None
          else (case api_version field_update of
                  None \<Rightarrow> Inl (TypeError ''replace() argument 2 must be str, not None'')
                | Some api_version_upd \<Rightarrow>
                    Inr (Some (py_replace tn api_version_original api_version_upd))))"

definition resource_in_database ::
  "field \<Rightarrow> field \<Rightarrow> resource_reference_pb with_location \<Rightarrow> error + bool" where
  "resource_in_database field_original field_update resource_ref =
     (case resource_database field_update of
        None \<Rightarrow> Inr False
      | Some rb_update \<Rightarrow>
          (case (if child_type field_update
                 then call_method (Some rb_update) ''get_parent_resource_by_child_type''
                        (ref_child_type (loc_value resource_ref))
                 else call_method (Some rb_update) ''get_resource_by_type''
                        (ref_type (loc_value resource_ref))) of
             Inl e \<Rightarrow> Inl e
           | Inr resources \<Rightarrow> Inr (resources \<noteq> [])))"

definition resource_ref_in_local ::
  "field \<Rightarrow> field \<Rightarrow> resource_reference_pb \<Rightarrow> error + bool" where
  "resource_ref_in_local field_original field_update resource_ref =
     (case message_resource field_update of
        None \<Rightarrow> Inr False
      | Some mr_update \<Rightarrow>
          if \<not> truthy (py_or (ref_type resource_ref) (ref_child_type resource_ref))
          then Inl (TypeError
            ''In a resource_reference annotation, either `type` or `child_type` field should be defined'')
          else if child_type field_original
          then (case call_method (resource_database field_update)
                       ''get_parent_resources_by_child_type'' (ref_child_type resource_ref) of
                  Inl e \<Rightarrow> Inl e
                | Inr parent_resources \<Rightarrow>
                    if \<not> list_ex (\<lambda>r. res_type (loc_value mr_update) = res_type (loc_value r))
                             parent_resources
                    then Inr False else Inr True)
          else if Some (res_type (loc_value mr_update)) \<noteq> ref_type resource_ref
          then Inr False
          else Inr True)"

definition is_parent_type ::
  "field \<Rightarrow> field \<Rightarrow> string option \<Rightarrow> string option \<Rightarrow> bool \<Rightarrow> int \<Rightarrow>
   finding list \<Rightarrow> outcome \<times> finding list" where
  "is_parent_type field_original field_update child parent_type original_is_child src_line fc =
     (case call_method
             (if original_is_child then resource_database field_original
              else resource_database field_update)
             ''get_parent_resources_by_child_type'' child of
        Inl e \<Rightarrow> (Raised e, fc)
      | Inr parent_resources \<Rightarrow>
          if \<not> list_ex (\<lambda>p. Some (res_type (loc_value p)) = parent_type) parent_resources
          then (Returned,
                addFinding RESOURCE_REFERENCE_CHANGE (proto_file_name field_update) src_line
                  (''The child_type `'' @ py_str child @ ''` and type `'' @ py_str parent_type
                   @ ''` of resource reference option in field `'' @ name field_original
                   @ ''` cannot be resolved to the identical resource.'')
                  MAJOR fc)
          else (Returned, fc))"

definition compare_resource_reference ::
  "field \<Rightarrow> field \<Rightarrow> finding list \<Rightarrow> outcome \<times> finding list" where
  "compare_resource_reference field_original field_update fc =
     (case (resource_reference field_original, resource_reference field_update) of
        (None, None) \<Rightarrow> (Returned, fc)
      | (None, Some resource_ref_update) \<Rightarrow>
          (case resource_in_database field_original field_update resource_ref_update of
             Inl e \<Rightarrow> (Raised e, fc)
           | Inr in_database \<Rightarrow>
               if \<not> in_database
               then (Returned,
                     addFinding RESOURCE_REFERENCE_ADDITION (proto_file_name field_update)
                       (loc_source_code_line resource_ref_update)
                       (''A resource reference option is added to the field `''
                        @ name field_original @ ''`, but it is not defined anywhere'')
                       MAJOR fc)
               else (Returned,
                     addFinding RESOURCE_REFERENCE_ADDITION (proto_file_name field_update)
                       (loc_source_code_line resource_ref_update)
                       (''A resource reference option is added to the field `''
                        @ name field_original @ ''`.'')
                       MINOR fc))
      | (Some resource_ref_original, None) \<Rightarrow>
          (case resource_ref_in_local field_original field_update
                  (loc_value resource_ref_original) of
             Inl e \<Rightarrow> (Raised e, fc)
           | Inr in_local \<Rightarrow>
               if \<not> in_local
               then (Returned,
                     addFinding RESOURCE_REFERENCE_REMOVAL (proto_file_name field_original)
                       (loc_source_code_line resource_ref_original)
                       (''A resource reference option of the field `'' @ name field_original
                        @ ''` is removed.'')
                       MAJOR fc)
               else (Returned,
                     addFinding RESOURCE_REFERENCE_REMOVAL (proto_file_name field_original)
                       (loc_source_code_line resource_ref_original)
                       (''A resource reference option of the field `'' @ name field_original
                        @ ''` is removed, but added back to the message options.'')
                       MINOR fc))
      | (Some resource_ref_original, Some resource_ref_update) \<Rightarrow>
          if child_type field_original = child_type field_update
          then (let original_type = py_or (ref_type (loc_value resource_ref_original))
                                          (ref_child_type (loc_value resource_ref_original));
                    update_type = py_or (ref_type (loc_value resource_ref_update))
                                        (ref_child_type (loc_value resource_ref_update))
                in if original_type \<noteq> update_type
                   then (Returned,
                         addFinding RESOURCE_REFERENCE_CHANGE (proto_file_name field_update)
                           (loc_source_code_line resource_ref_update)
                           (''The type of resource reference option of the field `''
                            @ name field_original @ ''` is changed from `''
                            @ py_str original_type @ ''` to `'' @ py_str update_type @ ''`.'')
                           MAJOR fc)
                   else (Returned, fc))
          else
            (case (if child_type field_original
                   then is_parent_type field_original field_update
                          (ref_child_type (loc_value resource_ref_original))
                          (ref_type (loc_value resource_ref_update))
                          True (loc_source_code_line resource_ref_update) fc
                   else (Returned, fc)) of
               (Raised e, fc1) \<Rightarrow> (Raised e, fc1)
             | (Returned, fc1) \<Rightarrow>
                 if child_type field_update
                 then is_parent_type field_original field_update
                        (ref_child_type (loc_value resource_ref_update))
                        (ref_type (loc_value resource_ref_original))
                        False (loc_source_code_line resource_ref_update) fc1
                 else (Returned, fc1)))"

text \<open>Steps 4 and 5 of \<^verbatim>\<open>compare\<close>: the repeated state and the field behavior.\<close>

definition check_repeated :: "field \<Rightarrow> field \<Rightarrow> finding list \<Rightarrow> finding list" where
  "check_repeated field_original field_update fc =
     (if loc_value (repeated field_original) \<noteq> loc_value (repeated field_update)
      then addFinding FIELD_REPEATED_CHANGE (proto_file_name field_update)
             (loc_source_code_line (repeated field_update))
             (''Repeated state of an existing field `'' @ name field_original @ ''` is changed.'')
             MAJOR fc
      else fc)"

definition check_required :: "field \<Rightarrow> field \<Rightarrow> finding list \<Rightarrow> finding list" where
  "check_required field_original field_update fc =
     (if \<not> loc_value (required field_original) \<and> loc_value (required field_update)
      then addFinding FIELD_BEHAVIOR_CHANGE (proto_file_name field_update)
             (loc_source_code_line (required field_update))
             (''Field behavior of an existing field `'' @ name field_original @ ''` is changed.'')
             MAJOR fc
      else fc)"

text \<open>
  The test \<^verbatim>\<open>a == b or self._transformed_type_name(a) == b\<close> of the map branch:
  the transformation is only called when the two names differ.
\<close>

definition identical_type :: "field \<Rightarrow> field \<Rightarrow> string \<Rightarrow> string \<Rightarrow> error + bool" where
  "identical_type field_original field_update a b =
     (if a = b then Inr True
      else (case transformed_type_name field_original field_update a of
              Inl e \<Rightarrow> Inl e
            | Inr transformed \<Rightarrow> Inr (transformed = Some b)))"

text \<open>The branch \<^verbatim>\<open>elif self.field_original.type_name:\<close>, reached with equal type names.\<close>

definition check_map_type ::
  "field \<Rightarrow> field \<Rightarrow> string with_location \<Rightarrow> string with_location \<Rightarrow>
   finding list \<Rightarrow> outcome \<times> finding list" where
  "check_map_type field_original field_update type_name_original type_name_upd fc =
     (if is_map_type field_original \<and> \<not> is_map_type field_update
      then (Returned,
            addFinding FIELD_TYPE_CHANGE (proto_file_name field_update)
              (loc_source_code_line type_name_upd)
              (''Type of an existing field `'' @ name field_original
               @ ''` is changed from a map to `'' @ loc_value type_name_upd @ ''`.'')
              MAJOR fc)
      else if \<not> is_map_type field_original \<and> is_map_type field_update
      then (Returned,
            addFinding FIELD_TYPE_CHANGE (proto_file_name field_update)
              (loc_source_code_line type_name_upd)
              (''Type of an existing field `'' @ name field_original
               @ ''` is changed from `'' @ loc_value type_name_original @ ''` to a map.'')
              MAJOR fc)
      else if is_map_type field_original \<and> is_map_type field_update
      then (case map_entry_type field_original of
              None \<Rightarrow> (Raised (TypeError '''NoneType' object is not subscriptable''), fc)
            | Some entry_original \<Rightarrow>
                (case map_entry_type field_update of
                   None \<Rightarrow> (Raised (TypeError '''NoneType' object is not subscriptable''), fc)
                 | Some entry_upd \<Rightarrow>
                     (case identical_type field_original field_update
                             (map_key entry_original) (map_key entry_upd) of
                        Inl e \<Rightarrow> (Raised e, fc)
                      | Inr identical_key_type \<Rightarrow>
                          (case identical_type field_original field_update
                                  (map_value entry_original) (map_value entry_upd) of
                             Inl e \<Rightarrow> (Raised e, fc)
                           | Inr identical_value_type \<Rightarrow>
                               if \<not> (identical_key_type \<and> identical_value_type)
                               then (Returned,
                                     addFinding FIELD_TYPE_CHANGE (proto_file_name field_update)
                                       (loc_source_code_line type_name_upd)
                                       (''Type of an existing field `'' @ name field_original
                                        @ ''` is changed from `map<'' @ map_key entry_original
                                        @ '', '' @ map_value entry_original @ ''>` to `map<''
                                        @ map_key entry_upd @ '', '' @ map_value entry_upd
                                        @ ''>`.'')
                                       MAJOR fc)
                               else (Returned, fc)))))
      else (Returned, fc))"

text \<open>
  Step 5, the type of the field. Reading \<^verbatim>\<open>self.field_update.type_name.value\<close> when
  the updated field has no type name is an \<^verbatim>\<open>AttributeError\<close>.
\<close>

definition check_type :: "field \<Rightarrow> field \<Rightarrow> finding list \<Rightarrow> outcome \<times> finding list" where
  "check_type field_original field_update fc =
     (if loc_value (proto_type field_original) \<noteq> loc_value (proto_type field_update)
      then (Returned,
            addFinding FIELD_TYPE_CHANGE (proto_file_name field_update)
              (loc_source_code_line (proto_type field_update))
              (''Type of an existing field `'' @ name field_original @ ''` is changed from `''
               @ loc_value (proto_type field_original) @ ''` to `''
               @ loc_value (proto_type field_update) @ ''`.'')
              MAJOR fc)
      else
        (case type_name field_original of
           None \<Rightarrow> (Returned, fc)
         | Some type_name_original \<Rightarrow>
             (case type_name field_update of
                None \<Rightarrow> (Raised (AttributeError ''value''), fc)
              | Some type_name_upd \<Rightarrow>
                  if loc_value type_name_original \<noteq> loc_value type_name_upd
                  then (case transformed_type_name field_original field_update
                               (loc_value type_name_original) of
                          Inl e \<Rightarrow> (Raised e, fc)
                        | Inr transformed \<Rightarrow>
                            if \<not> truthy transformed \<or> transformed \<noteq> Some (loc_value type_name_upd)
                            then (Returned,
                                  addFinding FIELD_TYPE_CHANGE (proto_file_name field_update)
                                    (loc_source_code_line type_name_upd)
                                    (''Type of an existing field `'' @ name field_original
                                     @ ''` is changed from `'' @ loc_value type_name_original
                                     @ ''` to `'' @ loc_value type_name_upd @ ''`.'')
                                    MAJOR fc)
                            else (Returned, fc))
                  else check_map_type field_original field_update
                         type_name_original type_name_upd fc)))"

text \<open>Steps 6 and 7: the oneof state and the proto3 optional state.\<close>

definition check_oneof :: "field \<Rightarrow> field \<Rightarrow> finding list \<Rightarrow> finding list" where
  "check_oneof field_original field_update fc =
     (if oneof field_original \<noteq> oneof field_update
      then (if oneof field_original
            then addFinding FIELD_ONEOF_REMOVAL (proto_file_name field_update)
                   (source_code_line field_update)
                   (''An existing field `'' @ name field_original @ ''` is moved out of One-of.'')
                   MAJOR fc
            else addFinding FIELD_ONEOF_ADDITION (proto_file_name field_update)
                   (source_code_line field_update)
                   (''An existing field `'' @ name field_original @ ''` is moved into One-of.'')
                   MAJOR fc)
      else if oneof field_original
              \<and> proto3_optional field_original \<noteq> proto3_optional field_update
      then (let fc1 =
                  (if proto3_optional field_original
                   then addFinding FIELD_PROTO3_OPTIONAL_CHANGE (proto_file_name field_update)
                          (source_code_line field_update)
                          (''Proto3 optional state of an existing field `''
                           @ name field_original @ ''` is changed to required.'')
                          MAJOR fc
                   else fc)
            in if proto3_optional field_update
               then addFinding FIELD_PROTO3_OPTIONAL_CHANGE (proto_file_name field_update)
                      (source_code_line field_update)
                      (''An existing field `'' @ name field_original
                       @ ''` is changed to proto3 optional.'')
                      MINOR fc1
               else fc1)
      else fc)"

text \<open>Steps 3 to 8 of \<^verbatim>\<open>compare\<close>, with both fields present.\<close>

definition compare_present :: "field \<Rightarrow> field \<Rightarrow> finding list \<Rightarrow> outcome \<times> finding list" where
  "compare_present field_original field_update fc =
     (if name field_original \<noteq> name field_update
      then (Returned,
            addFinding FIELD_NAME_CHANGE (proto_file_name field_update)
              (source_code_line field_update)
              (''Name of an existing field is changed from `'' @ name field_original
               @ ''` to `'' @ name field_update @ ''`.'')
              MAJOR fc)
      else
        (case check_type field_original field_update
                (check_required field_original field_update
                   (check_repeated field_original field_update fc)) of
           (Raised e, fc1) \<Rightarrow> (Raised e, fc1)
         | (Returned, fc1) \<Rightarrow>
             compare_resource_reference field_original field_update
               (check_oneof field_original field_update fc1)))"

text \<open>
  The comparator object: the two (possibly absent) fields and the finding container it appends
  to. \<^verbatim>\<open>compare\<close> returns how the call ended and the object afterwards. With both
  fields absent, step 1 reads \<^verbatim>\<open>self.field_update.proto_file_name\<close> of \<open>None\<close>.
\<close>

record field_comparator =
  field_original :: "field option"
  field_update :: "field option"
  finding_container :: "finding list"

definition compare :: "field_comparator \<Rightarrow> outcome \<times> field_comparator" where
  "compare self =
     (case field_original self of
        None \<Rightarrow>
          (case field_update self of
             None \<Rightarrow> (Raised (AttributeError ''proto_file_name''), self)
           | Some u \<Rightarrow>
               (Returned,
                self\<lparr>finding_container :=
                  addFinding FIELD_ADDITION (proto_file_name u) (source_code_line u)
                    (''A new field `'' @ name u @ ''` is added.'')
                    MINOR (finding_container self)\<rparr>))
      | Some orig \<Rightarrow>
          (case field_update self of
             None \<Rightarrow>
               (Returned,
                self\<lparr>finding_container :=
                  addFinding FIELD_REMOVAL (proto_file_name orig) (source_code_line orig)
                    (''An existing field `'' @ name orig @ ''` is removed.'')
                    MAJOR (finding_container self)\<rparr>)
           | Some u \<Rightarrow>
               (case compare_present orig u (finding_container self) of
                  (r, fc) \<Rightarrow> (r, self\<lparr>finding_container := fc\<rparr>))))"

section \<open>EnumValueComparator\<close>

definition compare_enum_value ::
  "enum_value option \<Rightarrow> enum_value option \<Rightarrow> finding list \<Rightarrow> outcome \<times> finding list" where
  "compare_enum_value enum_value_original enum_value_upd fc =
     (case enum_value_original of
        None \<Rightarrow>
          (case enum_value_upd of
             None \<Rightarrow> (Raised (AttributeError ''proto_file_name''), fc)
           | Some u \<Rightarrow>
               (Returned,
                addFinding ENUM_VALUE_ADDITION (ev_proto_file_name u) (ev_source_code_line u)
                  (''A new EnumValue `'' @ ev_name u @ ''` is added.'') MINOR fc))
      | Some orig \<Rightarrow>
          (case enum_value_upd of
             None \<Rightarrow>
               (Returned,
                addFinding ENUM_VALUE_REMOVAL (ev_proto_file_name orig) (ev_source_code_line orig)
                  (''An existing EnumValue `'' @ ev_name orig @ ''` is removed.'') MAJOR fc)
           | Some u \<Rightarrow>
               if ev_name orig \<noteq> ev_name u
               then (Returned,
                     addFinding ENUM_VALUE_NAME_CHANGE (ev_proto_file_name u)
                       (ev_source_code_line u)
                       (''Name of the EnumValue is changed from `'' @ ev_name orig
                        @ ''` to `'' @ ev_name u @ ''`.'') MAJOR fc)
               else (Returned, fc)))"

section \<open>Running a comparator on a fresh container\<close>

text \<open>
  \<^verbatim>\<open>FieldComparator(original, update, FindingContainer()).compare()\<close>: how the call
  ended and the findings the container holds afterwards.
\<close>

definition run_compare :: "field option \<Rightarrow> field option \<Rightarrow> outcome \<times> finding list" where
  "run_compare original upd =
     (case compare \<lparr>field_original = original, field_update = upd, finding_container = []\<rparr> of
        (r, self') \<Rightarrow> (r, finding_container self'))"

section \<open>Example inputs\<close>

text \<open>A field as the test suite's \<^verbatim>\<open>make_field\<close> builds it: file \<^verbatim>\<open>foo\<close>,
  no type name, no annotation, no resource database.\<close>

definition base_field :: field where
  "base_field =
     \<lparr>name = ''my_field'', proto_file_name = ''foo'', source_code_line = 10,
      repeated = \<lparr>loc_value = False, loc_source_code_line = 10\<rparr>,
      required = \<lparr>loc_value = False, loc_source_code_line = 10\<rparr>,
      proto_type = \<lparr>loc_value = ''TYPE_ENUM'', loc_source_code_line = 10\<rparr>,
      type_name = None, is_map_type = False, map_entry_type = None,
      oneof = False, proto3_optional = False, resource_reference = None,
      child_type = False, api_version = None, message_resource = None,
      resource_database = None\<rparr>"

definition earlier_finding :: finding where
  "earlier_finding =
     \<lparr>category = ENUM_VALUE_REMOVAL, finding_file = ''bar'', finding_line = 3,
      message = ''An existing EnumValue `X` is removed.'', severity = MAJOR\<rparr>"

text \<open>A field whose resource reference is dropped by the update, the two revisions living in
  different files.\<close>

definition removed_ref_original :: field where
  "removed_ref_original =
     base_field\<lparr>proto_file_name := ''v1/foo.proto'',
       resource_reference :=
         Some \<lparr>loc_value = \<lparr>ref_type = Some ''example.com/Topic'', ref_child_type = None\<rparr>,
               loc_source_code_line = 7\<rparr>\<rparr>"

definition removed_ref_update :: field where
  "removed_ref_update = base_field\<lparr>proto_file_name := ''v1beta1/foo.proto''\<rparr>"

text \<open>An update of that field which drops the annotation and turns the field into a repeated
  one, the label standing on a line of its own.\<close>

definition relabelled_update :: field where
  "relabelled_update =
     base_field\<lparr>proto_file_name := ''v1beta1/foo.proto'',
       repeated := \<lparr>loc_value = True, loc_source_code_line = 11\<rparr>\<rparr>"

section \<open>Where a finding points\<close>

text \<open>
  The location of a finding of a comparison of two present fields, by the step that emits it:
  the category tells the step, and for FIELD_TYPE_CHANGE the two proto types tell whether the
  finding comes from the comparison of the proto types or of the type names. The line of an
  optional attribute is the line of the attribute that is present.
\<close>

definition located :: "field \<Rightarrow> field \<Rightarrow> finding \<Rightarrow> bool" where
  "located orig u f =
     (case category f of
        FIELD_NAME_CHANGE \<Rightarrow>
          finding_file f = proto_file_name u \<and> finding_line f = source_code_line u
      | FIELD_REPEATED_CHANGE \<Rightarrow>
          finding_file f = proto_file_name u
          \<and> finding_line f = loc_source_code_line (repeated u)
      | FIELD_BEHAVIOR_CHANGE \<Rightarrow>
          finding_file f = proto_file_name u
          \<and> finding_line f = loc_source_code_line (required u)
      | FIELD_TYPE_CHANGE \<Rightarrow>
          finding_file f = proto_file_name u
          \<and> (if loc_value (proto_type orig) \<noteq> loc_value (proto_type u)
             then finding_line f = loc_source_code_line (proto_type u)
             else Some (finding_line f) = map_option loc_source_code_line (type_name u))
      | FIELD_ONEOF_REMOVAL \<Rightarrow>
          finding_file f = proto_file_name u \<and> finding_line f = source_code_line u
      | FIELD_ONEOF_ADDITION \<Rightarrow>
          finding_file f = proto_file_name u \<and> finding_line f = source_code_line u
      | FIELD_PROTO3_OPTIONAL_CHANGE \<Rightarrow>
          finding_file f = proto_file_name u \<and> finding_line f = source_code_line u
      | RESOURCE_REFERENCE_ADDITION \<Rightarrow>
          finding_file f = proto_file_name u
          \<and> Some (finding_line f) = map_option loc_source_code_line (resource_reference u)
      | RESOURCE_REFERENCE_CHANGE \<Rightarrow>
          finding_file f = proto_file_name u
          \<and> Some (finding_line f) = map_option loc_source_code_line (resource_reference u)
      | RESOURCE_REFERENCE_REMOVAL \<Rightarrow>
          finding_file f = proto_file_name orig
          \<and> Some (finding_line f) = map_option loc_source_code_line (resource_reference orig)
      | FIELD_ADDITION \<Rightarrow> False
      | FIELD_REMOVAL \<Rightarrow> False
      | ENUM_VALUE_ADDITION \<Rightarrow> False
      | ENUM_VALUE_REMOVAL \<Rightarrow> False
      | ENUM_VALUE_NAME_CHANGE \<Rightarrow> False)"

section \<open>Version tolerance: the reading of the specification and the examples\<close>




text \<open>An enum-typed field of package \<^verbatim>\<open>pkg\<close> at a given version, with a given type.\<close>

definition enum_field :: "string option \<Rightarrow> string \<Rightarrow> field" where
  "enum_field version tn =
     base_field\<lparr>type_name := Some \<lparr>loc_value = tn, loc_source_code_line = 12\<rparr>,
       api_version := version\<rparr>"

text \<open>The FIELD_TYPE_CHANGE finding of the type-name branch of step 5.\<close>

definition type_name_change_finding ::
  "field \<Rightarrow> field \<Rightarrow> string with_location \<Rightarrow> string with_location \<Rightarrow> finding" where
  "type_name_change_finding orig u a b =
     \<lparr>category = FIELD_TYPE_CHANGE, finding_file = proto_file_name u,
      finding_line = loc_source_code_line b,
      message = ''Type of an existing field `'' @ name orig @ ''` is changed from `''
                @ loc_value a @ ''` to `'' @ loc_value b @ ''`.'',
      severity = MAJOR\<rparr>"

section \<open>Resource databases and annotated fields of the examples\<close>

text \<open>
  Modelled from the spec: a database that offers exactly the two operations of the declared
  contract, \<^verbatim>\<open>get_resource_by_type\<close> and \<^verbatim>\<open>get_parent_resources_by_child_type\<close>
  (the class itself, \<^verbatim>\<open>src/comparator/resource_database.py\<close>, is not among the sources).
\<close>

definition contract_database ::
  "(string option \<Rightarrow> resource list) \<Rightarrow> (string option \<Rightarrow> resource list) \<Rightarrow> resource_database" where
  "contract_database by_type parents_by_child_type =
     (\<lambda>m. if m = ''get_resource_by_type'' then Some by_type
          else if m = ''get_parent_resources_by_child_type'' then Some parents_by_child_type
          else None)"

definition project_resource :: resource where
  "project_resource =
     \<lparr>loc_value = \<lparr>res_type = ''example.com/Project'', res_pattern = [''projects/{project}'']\<rparr>,
      loc_source_code_line = 2\<rparr>"

text \<open>A database in which \<^verbatim>\<open>example.com/Project\<close> is registered, as the parent of
  \<^verbatim>\<open>example.com/Topic\<close>; and a database with nothing registered.\<close>

definition project_database :: resource_database where
  "project_database =
     contract_database
       (\<lambda>t. if t = Some ''example.com/Project'' then [project_resource] else [])
       (\<lambda>c. if c = Some ''example.com/Topic'' then [project_resource] else [])"

definition empty_database :: resource_database where
  "empty_database = contract_database (\<lambda>t. []) (\<lambda>c. [])"

text \<open>A field annotated with \<^verbatim>\<open>child_type: "example.com/Topic"\<close>, one annotated with
  \<^verbatim>\<open>type: "example.com/Project"\<close>, and one whose annotation sets neither.\<close>

definition child_type_field :: "resource_database option \<Rightarrow> field" where
  "child_type_field rb =
     base_field\<lparr>resource_reference :=
         Some \<lparr>loc_value = \<lparr>ref_type = None, ref_child_type = Some ''example.com/Topic''\<rparr>,
               loc_source_code_line = 7\<rparr>,
       child_type := True, resource_database := rb\<rparr>"

definition type_field :: "resource_database option \<Rightarrow> field" where
  "type_field rb =
     base_field\<lparr>resource_reference :=
         Some \<lparr>loc_value = \<lparr>ref_type = Some ''example.com/Project'', ref_child_type = None\<rparr>,
               loc_source_code_line = 8\<rparr>,
       child_type := False, resource_database := rb\<rparr>"

definition malformed_field :: "resource_database option \<Rightarrow> field" where
  "malformed_field rb =
     base_field\<lparr>resource_reference :=
         Some \<lparr>loc_value = \<lparr>ref_type = None, ref_child_type = None\<rparr>,
               loc_source_code_line = 9\<rparr>,
       child_type := False, resource_database := rb\<rparr>"

text \<open>A field without annotation, inside a message that declares a resource itself.\<close>

definition plain_field :: "resource option \<Rightarrow> resource_database option \<Rightarrow> field" where
  "plain_field mr rb = base_field\<lparr>message_resource := mr, resource_database := rb\<rparr>"

section \<open>The same inputs\<close>

text \<open>
  The declared contract of the resource database returns a set of resource definitions, and a
  set has no order of its own: two runs on the same database may be handed the same answers in
  different orders. Two database objects are the same input when both are absent, or both are
  present, offer the same operations and answer every query with the same set of definitions.
\<close>

definition same_resources :: "resource_database option \<Rightarrow> resource_database option \<Rightarrow> bool" where
  "same_resources rb1 rb2 =
     (case (rb1, rb2) of
        (None, None) \<Rightarrow> True
      | (Some db1, Some db2) \<Rightarrow>
          (\<forall>m. case (db1 m, db2 m) of
                 (None, None) \<Rightarrow> True
               | (Some q1, Some q2) \<Rightarrow> (\<forall>arg. set (q1 arg) = set (q2 arg))
               | _ \<Rightarrow> False)
      | _ \<Rightarrow> False)"

text \<open>Two field views are the same input when they agree on every attribute, their databases
  being the same in the sense above.\<close>

definition same_field :: "field \<Rightarrow> field \<Rightarrow> bool" where
  "same_field f1 f2 =
     (f2\<lparr>resource_database := resource_database f1\<rparr> = f1
      \<and> same_resources (resource_database f1) (resource_database f2))"

definition same_inputs :: "field_comparator \<Rightarrow> field_comparator \<Rightarrow> bool" where
  "same_inputs c1 c2 =
     (rel_option same_field (field_original c1) (field_original c2)
      \<and> rel_option same_field (field_update c1) (field_update c2))"

text \<open>A second definition of \<^verbatim>\<open>example.com/Project\<close>, and two databases that hold both
  definitions and enumerate them in opposite orders.\<close>

definition project_resource_again :: resource where
  "project_resource_again =
     \<lparr>loc_value = \<lparr>res_type = ''example.com/Project'', res_pattern = [''projects/{project}'']\<rparr>,
      loc_source_code_line = 5\<rparr>"

definition forward_database :: resource_database where
  "forward_database =
     contract_database
       (\<lambda>t. if t = Some ''example.com/Project''
            then [project_resource, project_resource_again] else [])
       (\<lambda>c. [])"

definition backward_database :: resource_database where
  "backward_database =
     contract_database
       (\<lambda>t. if t = Some ''example.com/Project''
            then [project_resource_again, project_resource] else [])
       (\<lambda>c. [])"

section \<open>The appended findings do not depend on the container\<close>

text \<open>
  Each step appends to the container it is given and never reads it: the result on any
  container is the result on the empty one, appended.
\<close>

lemma addFinding_append: "addFinding c f l m s fc = fc @ addFinding c f l m s []"
  by (simp add: addFinding_def)

lemma check_repeated_frame: "check_repeated orig u fc = fc @ check_repeated orig u []"
  by (simp add: check_repeated_def addFinding_def)

lemma check_required_frame: "check_required orig u fc = fc @ check_required orig u []"
  by (simp add: check_required_def addFinding_def)

lemma check_oneof_frame: "check_oneof orig u fc = fc @ check_oneof orig u []"
  by (simp add: check_oneof_def addFinding_def Let_def)

lemma check_map_type_frame:
  "check_map_type orig u a b fc = (fst (check_map_type orig u a b []), fc @ snd (check_map_type orig u a b []))"
  by (simp add: check_map_type_def addFinding_def split: option.splits sum.splits)

lemma check_type_frame:
  "check_type orig u fc = (fst (check_type orig u []), fc @ snd (check_type orig u []))"
  unfolding check_type_def
  by (subst check_map_type_frame) (simp add: addFinding_def split: option.splits sum.splits)

lemma is_parent_type_frame:
  "is_parent_type orig u c p b l fc = (fst (is_parent_type orig u c p b l []), fc @ snd (is_parent_type orig u c p b l []))"
  by (simp add: is_parent_type_def addFinding_def split: option.splits sum.splits)

lemma compare_resource_reference_frame:
  "compare_resource_reference orig u fc =
     (fst (compare_resource_reference orig u []), fc @ snd (compare_resource_reference orig u []))"
  by (cases "child_type orig"; cases "child_type u")
     (simp_all add: compare_resource_reference_def is_parent_type_def addFinding_def Let_def
        split: option.splits sum.splits)

lemma compare_present_eq:
  "compare_present orig u fc =
     (if name orig \<noteq> name u
      then (Returned,
            fc @ addFinding FIELD_NAME_CHANGE (proto_file_name u) (source_code_line u)
              (''Name of an existing field is changed from `'' @ name orig
               @ ''` to `'' @ name u @ ''`.'') MAJOR [])
      else (case check_type orig u [] of
              (Raised e, t) \<Rightarrow>
                (Raised e, fc @ check_repeated orig u [] @ check_required orig u [] @ t)
            | (Returned, t) \<Rightarrow>
                (fst (compare_resource_reference orig u []),
                 fc @ check_repeated orig u [] @ check_required orig u [] @ t
                 @ check_oneof orig u [] @ snd (compare_resource_reference orig u []))))"
proof (cases "name orig = name u")
  case False
  then show ?thesis by (simp add: compare_present_def addFinding_def)
next
  case True
  let ?pre = "check_repeated orig u [] @ check_required orig u []"
  obtain r t where t: "check_type orig u [] = (r, t)" by (cases "check_type orig u []")
  have A: "check_required orig u (check_repeated orig u fc) = fc @ ?pre"
    by (metis check_repeated_frame check_required_frame append.assoc)
  have B: "check_type orig u (fc @ ?pre) = (r, fc @ ?pre @ t)"
    using check_type_frame [of orig u "fc @ ?pre"] t by simp
  have C: "check_oneof orig u (fc @ ?pre @ t) = fc @ ?pre @ t @ check_oneof orig u []"
    using check_oneof_frame [of orig u "fc @ ?pre @ t"] by simp
  have D: "compare_resource_reference orig u (fc @ ?pre @ t @ check_oneof orig u []) =
      (fst (compare_resource_reference orig u []),
       fc @ ?pre @ t @ check_oneof orig u [] @ snd (compare_resource_reference orig u []))"
    using compare_resource_reference_frame [of orig u "fc @ ?pre @ t @ check_oneof orig u []"]
    by simp
  have E: "compare_present orig u fc =
     (case check_type orig u (fc @ ?pre) of
        (Raised e, fc1) \<Rightarrow> (Raised e, fc1)
      | (Returned, fc1) \<Rightarrow> compare_resource_reference orig u (check_oneof orig u fc1))"
    using True by (simp add: compare_present_def A)
  show ?thesis
  proof (cases r)
    case (Raised e)
    with True t B E show ?thesis by simp
  next
    case Returned
    with True t B C D E show ?thesis by simp
  qed
qed

lemma compare_present_frame:
  "compare_present orig u fc =
     (fst (compare_present orig u []), fc @ snd (compare_present orig u []))"
  by (simp add: compare_present_eq [of orig u fc] compare_present_eq [of orig u "[]"]
        split: prod.splits outcome.splits)

lemma compare_frame:
  "compare self =
     (fst (compare (self\<lparr>finding_container := []\<rparr>)),
      self\<lparr>finding_container :=
        finding_container self @ finding_container (snd (compare (self\<lparr>finding_container := []\<rparr>)))\<rparr>)"
proof (cases "field_original self")
  case None
  then show ?thesis by (simp add: compare_def addFinding_def split: option.splits)
next
  case (Some orig)
  show ?thesis
  proof (cases "field_update self")
    case None
    with Some show ?thesis by (simp add: compare_def addFinding_def)
  next
    case (Some u)
    with \<open>field_original self = Some orig\<close> show ?thesis
      using compare_present_frame [of orig u "finding_container self"]
      by (simp add: compare_def split: prod.splits)
  qed
qed

lemma run_compare_present:
  "run_compare (Some orig) (Some u) = compare_present orig u []"
  by (simp add: run_compare_def compare_def split: prod.splits)

section \<open>Field addition and removal\<close>

text \<open>
  C3. For every present field \<open>F\<close>: with the original absent, \<^verbatim>\<open>compare\<close> appends
  exactly one finding, FIELD_ADDITION with severity MINOR at the file and line of \<open>F\<close>, and
  returns; with the update absent it appends exactly one finding, FIELD_REMOVAL with severity
  MAJOR at the file and line of \<open>F\<close>, and returns. Nothing else of the comparator changes.
\<close>

theorem compare_addition_removal:
  "compare \<lparr>field_original = None, field_update = Some F, finding_container = fc\<rparr> =
     (Returned,
      \<lparr>field_original = None, field_update = Some F,
       finding_container = fc @
         [\<lparr>category = FIELD_ADDITION, finding_file = proto_file_name F,
           finding_line = source_code_line F,
           message = ''A new field `'' @ name F @ ''` is added.'', severity = MINOR\<rparr>]\<rparr>)
   \<and> compare \<lparr>field_original = Some F, field_update = None, finding_container = fc\<rparr> =
     (Returned,
      \<lparr>field_original = Some F, field_update = None,
       finding_container = fc @
         [\<lparr>category = FIELD_REMOVAL, finding_file = proto_file_name F,
           finding_line = source_code_line F,
           message = ''An existing field `'' @ name F @ ''` is removed.'', severity = MAJOR\<rparr>]\<rparr>)"
  by (simp add: compare_def addFinding_def)

theorem compare_addition_removal_witness:
  "run_compare None (Some base_field) =
     (Returned,
      [\<lparr>category = FIELD_ADDITION, finding_file = ''foo'', finding_line = 10,
        message = ''A new field `my_field` is added.'', severity = MINOR\<rparr>])
   \<and> run_compare (Some base_field) None =
     (Returned,
      [\<lparr>category = FIELD_REMOVAL, finding_file = ''foo'', finding_line = 10,
        message = ''An existing field `my_field` is removed.'', severity = MAJOR\<rparr>])"
  using compare_addition_removal [of base_field "[]"]
  by (simp add: run_compare_def base_field_def)

section \<open>Determinism and purity\<close>

text \<open>
  The steps before the resolver never read the resource database; the resolver reads of a
  database answer only whether it is empty and whether some definition in it has a given type.
  So the same inputs, with the answers of the database enumerated in any order, give the same
  run.
\<close>

lemma same_resources_refl: "same_resources rb rb"
  by (auto simp: same_resources_def split: option.splits)

lemma same_field_refl: "same_field f f"
  by (simp add: same_field_def same_resources_refl)

lemma same_inputs_refl: "same_inputs c c"
  by (simp add: same_inputs_def same_field_refl option.rel_refl)

lemma same_inputs_container:
  "same_inputs (c1\<lparr>finding_container := x\<rparr>) (c2\<lparr>finding_container := y\<rparr>) = same_inputs c1 c2"
  by (simp add: same_inputs_def)

lemma call_method_same:
  assumes "same_resources rb1 rb2"
  shows "(\<exists>e. call_method rb1 m a = Inl e \<and> call_method rb2 m a = Inl e)
       \<or> (\<exists>l1 l2. call_method rb1 m a = Inr l1 \<and> call_method rb2 m a = Inr l2
                  \<and> set l1 = set l2)"
proof (cases rb1)
  case None
  with assms have "rb2 = None" by (simp add: same_resources_def split: option.splits)
  with None show ?thesis by (simp add: call_method_def)
next
  case (Some db1)
  with assms obtain db2 where db2: "rb2 = Some db2"
    by (auto simp: same_resources_def split: option.splits)
  from assms Some db2 have
    m: "case (db1 m, db2 m) of
          (None, None) \<Rightarrow> True
        | (Some q1, Some q2) \<Rightarrow> (\<forall>arg. set (q1 arg) = set (q2 arg))
        | _ \<Rightarrow> False"
    by (simp add: same_resources_def)
  show ?thesis
  proof (cases "db1 m")
    case None
    with m have "db2 m = None" by (simp split: option.splits)
    with None Some db2 show ?thesis by (simp add: call_method_def)
  next
    case (Some q1)
    with m obtain q2 where q2: "db2 m = Some q2" by (auto split: option.splits)
    with m Some have "set (q1 a) = set (q2 a)" by simp
    with Some q2 \<open>rb1 = Some db1\<close> db2 show ?thesis by (simp add: call_method_def)
  qed
qed

lemma list_ex_same: "set l1 = set l2 \<Longrightarrow> list_ex P l1 = list_ex P l2"
  by (simp add: list_ex_iff)

lemma nonempty_same: "set l1 = set l2 \<Longrightarrow> (l1 \<noteq> []) = (l2 \<noteq> [])"
  by (metis set_empty)

lemma check_repeated_same:
  "check_repeated (orig\<lparr>resource_database := x\<rparr>) (u\<lparr>resource_database := y\<rparr>) fc
   = check_repeated orig u fc"
  by (simp add: check_repeated_def)

lemma check_required_same:
  "check_required (orig\<lparr>resource_database := x\<rparr>) (u\<lparr>resource_database := y\<rparr>) fc
   = check_required orig u fc"
  by (simp add: check_required_def)

lemma check_oneof_same:
  "check_oneof (orig\<lparr>resource_database := x\<rparr>) (u\<lparr>resource_database := y\<rparr>) fc
   = check_oneof orig u fc"
  by (simp add: check_oneof_def cong: if_cong)

lemma transformed_type_name_same:
  "transformed_type_name (orig\<lparr>resource_database := x\<rparr>) (u\<lparr>resource_database := y\<rparr>) tn
   = transformed_type_name orig u tn"
  by (simp add: transformed_type_name_def cong: option.case_cong if_cong)

lemma identical_type_same:
  "identical_type (orig\<lparr>resource_database := x\<rparr>) (u\<lparr>resource_database := y\<rparr>) a b
   = identical_type orig u a b"
  by (simp add: identical_type_def transformed_type_name_same cong: if_cong)

lemma check_map_type_same:
  "check_map_type (orig\<lparr>resource_database := x\<rparr>) (u\<lparr>resource_database := y\<rparr>) a b fc
   = check_map_type orig u a b fc"
  by (simp add: check_map_type_def identical_type_same
        cong: option.case_cong sum.case_cong if_cong)

lemma check_type_same:
  "check_type (orig\<lparr>resource_database := x\<rparr>) (u\<lparr>resource_database := y\<rparr>) fc
   = check_type orig u fc"
  by (simp add: check_type_def check_map_type_same transformed_type_name_same
        cong: option.case_cong sum.case_cong if_cong)

lemma is_parent_type_same:
  assumes "same_resources (resource_database orig) x" and "same_resources (resource_database u) y"
  shows "is_parent_type (orig\<lparr>resource_database := x\<rparr>) (u\<lparr>resource_database := y\<rparr>) c p b l fc
       = is_parent_type orig u c p b l fc"
proof -
  have "same_resources (if b then resource_database orig else resource_database u)
          (if b then x else y)"
    using assms by simp
  from call_method_same [OF this, of "''get_parent_resources_by_child_type''" c]
  show ?thesis
    by (auto simp: is_parent_type_def list_ex_iff)
qed

lemma resource_in_database_same:
  assumes "same_resources (resource_database u) y"
  shows "resource_in_database (orig\<lparr>resource_database := x\<rparr>) (u\<lparr>resource_database := y\<rparr>) r
       = resource_in_database orig u r"
proof (cases "resource_database u")
  case None
  with assms have "y = None" by (simp add: same_resources_def split: option.splits)
  with None show ?thesis by (simp add: resource_in_database_def)
next
  case (Some db1)
  with assms obtain db2 where y: "y = Some db2"
    by (auto simp: same_resources_def split: option.splits)
  have s: "same_resources (Some db1) (Some db2)" using assms Some y by simp
  show ?thesis
    using call_method_same [OF s, of "''get_parent_resource_by_child_type''"
        "ref_child_type (loc_value r)"]
      call_method_same [OF s, of "''get_resource_by_type''" "ref_type (loc_value r)"]
    by (auto simp: resource_in_database_def Some y dest: nonempty_same)
qed

lemma resource_ref_in_local_same:
  assumes "same_resources (resource_database u) y"
  shows "resource_ref_in_local (orig\<lparr>resource_database := x\<rparr>) (u\<lparr>resource_database := y\<rparr>) r
       = resource_ref_in_local orig u r"
  using call_method_same [OF assms, of "''get_parent_resources_by_child_type''" "ref_child_type r"]
  by (auto simp: resource_ref_in_local_def list_ex_iff split: option.splits)

lemma compare_resource_reference_same:
  assumes "same_resources (resource_database orig) x" and "same_resources (resource_database u) y"
  shows "compare_resource_reference (orig\<lparr>resource_database := x\<rparr>)
           (u\<lparr>resource_database := y\<rparr>) fc
       = compare_resource_reference orig u fc"
  by (simp add: compare_resource_reference_def is_parent_type_same [OF assms]
        resource_in_database_same [OF assms(2)] resource_ref_in_local_same [OF assms(2)]
        cong: option.case_cong sum.case_cong prod.case_cong outcome.case_cong if_cong)

lemma compare_present_same:
  assumes "same_resources (resource_database orig) x" and "same_resources (resource_database u) y"
  shows "compare_present (orig\<lparr>resource_database := x\<rparr>) (u\<lparr>resource_database := y\<rparr>) fc
       = compare_present orig u fc"
  by (simp add: compare_present_def check_repeated_same check_required_same check_oneof_same
        check_type_same compare_resource_reference_same [OF assms]
        cong: prod.case_cong outcome.case_cong if_cong)

lemma same_field_update:
  assumes "same_field f1 f2"
  shows "f2 = f1\<lparr>resource_database := resource_database f2\<rparr>"
proof -
  from assms have "f2\<lparr>resource_database := resource_database f1\<rparr> = f1"
    by (simp add: same_field_def)
  from arg_cong [OF this, of "\<lambda>f. f\<lparr>resource_database := resource_database f2\<rparr>"]
  show ?thesis by simp
qed

lemma same_field_header:
  assumes "same_field f1 f2"
  shows "name f2 = name f1" and "proto_file_name f2 = proto_file_name f1"
    and "source_code_line f2 = source_code_line f1"
proof -
  from assms have e: "f2\<lparr>resource_database := resource_database f1\<rparr> = f1"
    by (simp add: same_field_def)
  from arg_cong [OF e, of name] show "name f2 = name f1" by simp
  from arg_cong [OF e, of proto_file_name] show "proto_file_name f2 = proto_file_name f1"
    by simp
  from arg_cong [OF e, of source_code_line] show "source_code_line f2 = source_code_line f1"
    by simp
qed

lemma compare_same:
  assumes "same_inputs c1 c2" and "finding_container c1 = finding_container c2"
  shows "fst (compare c2) = fst (compare c1)
       \<and> finding_container (snd (compare c2)) = finding_container (snd (compare c1))"
proof (cases "field_original c1")
  case None
  with assms(1) have o2: "field_original c2 = None" by (simp add: same_inputs_def)
  show ?thesis
  proof (cases "field_update c1")
    case None
    with assms(1) have "field_update c2 = None" by (simp add: same_inputs_def)
    with None \<open>field_original c1 = None\<close> o2 assms(2) show ?thesis by (simp add: compare_def)
  next
    case (Some u1)
    with assms(1) obtain u2 where u2: "field_update c2 = Some u2" "same_field u1 u2"
      by (auto simp: same_inputs_def option_rel_Some1)
    with Some \<open>field_original c1 = None\<close> o2 assms(2) same_field_header [OF u2(2)]
    show ?thesis
      by (simp add: compare_def)
  qed
next
  case (Some o1)
  with assms(1) obtain o2 where o2: "field_original c2 = Some o2" "same_field o1 o2"
    by (auto simp: same_inputs_def option_rel_Some1)
  have eo: "o2 = o1\<lparr>resource_database := resource_database o2\<rparr>"
    by (rule same_field_update [OF o2(2)])
  show ?thesis
  proof (cases "field_update c1")
    case None
    with assms(1) have "field_update c2 = None" by (simp add: same_inputs_def)
    with None Some o2 assms(2) same_field_header [OF o2(2)] show ?thesis
      by (simp add: compare_def)
  next
    case (Some u1)
    with assms(1) obtain u2 where u2: "field_update c2 = Some u2" "same_field u1 u2"
      by (auto simp: same_inputs_def option_rel_Some1)
    have eu: "u2 = u1\<lparr>resource_database := resource_database u2\<rparr>"
      by (rule same_field_update [OF u2(2)])
    have "compare_present o1 u1 fc =
        compare_present (o1\<lparr>resource_database := resource_database o2\<rparr>)
          (u1\<lparr>resource_database := resource_database u2\<rparr>) fc" for fc
      using o2(2) u2(2) by (simp add: compare_present_same same_field_def)
    with eo eu have "compare_present o2 u2 fc = compare_present o1 u1 fc" for fc
      by simp
    with Some \<open>field_original c1 = Some o1\<close> o2 u2 assms(2) show ?thesis
      by (simp add: compare_def split: prod.splits)
  qed
qed

text \<open>
  C9. A run of \<^verbatim>\<open>compare\<close> leaves both field views of the comparator as they were and
  only appends to the container. The list it appends is the list a run on a fresh container
  produces, with the same outcome; a second run on a fresh container, started from the
  comparator the first run left behind, produces that same ordered list again; and so does
  every run of a comparator built on the same inputs, whatever its container holds and in
  whatever order its resource database enumerates the set of answers to a query.
\<close>

theorem compare_deterministic_pure:
  assumes "compare self = (r, self')"
  shows "field_original self' = field_original self
       \<and> field_update self' = field_update self
       \<and> (\<exists>new. finding_container self' = finding_container self @ new
              \<and> compare (self\<lparr>finding_container := []\<rparr>) = (r, self\<lparr>finding_container := new\<rparr>)
              \<and> compare (self'\<lparr>finding_container := []\<rparr>) = (r, self'\<lparr>finding_container := new\<rparr>)
              \<and> (\<forall>other. same_inputs self other \<longrightarrow>
                    compare other =
                      (r, other\<lparr>finding_container := finding_container other @ new\<rparr>)))"
proof -
  let ?s0 = "self\<lparr>finding_container := []\<rparr>"
  let ?new = "finding_container (snd (compare ?s0))"
  have "compare self =
      (fst (compare ?s0), self\<lparr>finding_container := finding_container self @ ?new\<rparr>)"
    by (rule compare_frame)
  with assms have r: "r = fst (compare ?s0)"
    and s': "self' = self\<lparr>finding_container := finding_container self @ ?new\<rparr>"
    by simp_all
  have z: "compare ?s0 = (r, self\<lparr>finding_container := ?new\<rparr>)"
    using compare_frame [of ?s0] r by simp
  have "self'\<lparr>finding_container := []\<rparr> = ?s0" using s' by simp
  with z s' have again:
    "compare (self'\<lparr>finding_container := []\<rparr>) = (r, self'\<lparr>finding_container := ?new\<rparr>)"
    by simp
  have other: "compare other = (r, other\<lparr>finding_container := finding_container other @ ?new\<rparr>)"
    if "same_inputs self other" for other
  proof -
    let ?o0 = "other\<lparr>finding_container := []\<rparr>"
    have "same_inputs ?s0 ?o0" using that by (simp add: same_inputs_container)
    from compare_same [OF this] have
      "fst (compare ?o0) = r" "finding_container (snd (compare ?o0)) = ?new"
      using r by simp_all
    with compare_frame [of other] show ?thesis by simp
  qed
  from s' z again other show ?thesis by simp
qed

theorem compare_deterministic_pure_witness:
  "call_method (Some forward_database) ''get_resource_by_type'' (Some ''example.com/Project'')
     = Inr [project_resource, project_resource_again]
   \<and> call_method (Some backward_database) ''get_resource_by_type'' (Some ''example.com/Project'')
     = Inr [project_resource_again, project_resource]
   \<and> compare \<lparr>field_original = Some (plain_field None None),
              field_update = Some (type_field (Some forward_database)),
              finding_container = [earlier_finding]\<rparr> =
     (Returned,
      \<lparr>field_original = Some (plain_field None None),
       field_update = Some (type_field (Some forward_database)),
       finding_container =
         [earlier_finding,
          \<lparr>category = RESOURCE_REFERENCE_ADDITION, finding_file = ''foo'', finding_line = 8,
           message = ''A resource reference option is added to the field `my_field`.'',
           severity = MINOR\<rparr>]\<rparr>)
   \<and> compare \<lparr>field_original = Some (plain_field None None),
              field_update = Some (type_field (Some backward_database)),
              finding_container = []\<rparr> =
     (Returned,
      \<lparr>field_original = Some (plain_field None None),
       field_update = Some (type_field (Some backward_database)),
       finding_container =
         [\<lparr>category = RESOURCE_REFERENCE_ADDITION, finding_file = ''foo'', finding_line = 8,
           message = ''A resource reference option is added to the field `my_field`.'',
           severity = MINOR\<rparr>]\<rparr>)"
proof -
  let ?self = "\<lparr>field_original = Some (plain_field None None),
              field_update = Some (type_field (Some forward_database)),
              finding_container = [earlier_finding]\<rparr>"
  let ?other = "\<lparr>field_original = Some (plain_field None None),
              field_update = Some (type_field (Some backward_database)),
              finding_container = []\<rparr>"
  let ?added = "\<lparr>category = RESOURCE_REFERENCE_ADDITION, finding_file = ''foo'',
           finding_line = 8,
           message = ''A resource reference option is added to the field `my_field`.'',
           severity = MINOR\<rparr>"
  have q1: "call_method (Some forward_database) ''get_resource_by_type''
      (Some ''example.com/Project'') = Inr [project_resource, project_resource_again]"
    by (simp add: call_method_def forward_database_def contract_database_def)
  have q2: "call_method (Some backward_database) ''get_resource_by_type''
      (Some ''example.com/Project'') = Inr [project_resource_again, project_resource]"
    by (simp add: call_method_def backward_database_def contract_database_def)
  have h: "compare ?self =
      (Returned, ?self\<lparr>finding_container := [earlier_finding, ?added]\<rparr>)"
    using q1
    by (simp add: compare_def compare_present_eq check_type_def check_repeated_def
          check_required_def check_oneof_def compare_resource_reference_def
          resource_in_database_def addFinding_def plain_field_def type_field_def base_field_def)
  have "same_resources (Some forward_database) (Some backward_database)"
    by (auto simp: same_resources_def forward_database_def backward_database_def
          contract_database_def)
  then have si: "same_inputs ?self ?other"
    by (simp add: same_inputs_def same_field_def same_resources_refl type_field_def)
  from compare_deterministic_pure [OF h] obtain new where
    new: "finding_container (?self\<lparr>finding_container := [earlier_finding, ?added]\<rparr>)
            = finding_container ?self @ new"
    and all: "\<forall>other. same_inputs ?self other \<longrightarrow>
        compare other = (Returned, other\<lparr>finding_container := finding_container other @ new\<rparr>)"
    by blast
  from new have "new = [?added]" by simp
  with all si have "compare ?other = (Returned, ?other\<lparr>finding_container := [?added]\<rparr>)"
    by (metis append_Nil field_comparator.select_convs(3))
  with q1 q2 h show ?thesis by simp
qed

section \<open>Severity of the findings\<close>

lemma check_repeated_severity: "f \<in> set (check_repeated orig u []) \<Longrightarrow> severity f \<noteq> PATCH"
  by (auto simp: check_repeated_def addFinding_def split: if_splits)

lemma check_required_severity: "f \<in> set (check_required orig u []) \<Longrightarrow> severity f \<noteq> PATCH"
  by (auto simp: check_required_def addFinding_def split: if_splits)

lemma check_oneof_severity: "f \<in> set (check_oneof orig u []) \<Longrightarrow> severity f \<noteq> PATCH"
  by (auto simp: check_oneof_def addFinding_def Let_def split: if_splits)

lemma check_map_type_severity:
  "f \<in> set (snd (check_map_type orig u a b [])) \<Longrightarrow> severity f \<noteq> PATCH"
  by (auto simp: check_map_type_def addFinding_def split: if_splits option.splits sum.splits)

lemma check_type_severity: "f \<in> set (snd (check_type orig u [])) \<Longrightarrow> severity f \<noteq> PATCH"
  using check_map_type_severity [of f orig u]
  by (auto simp: check_type_def addFinding_def split: if_splits option.splits sum.splits)

lemma is_parent_type_severity:
  "f \<in> set (snd (is_parent_type orig u c p b l [])) \<Longrightarrow> severity f \<noteq> PATCH"
  by (auto simp: is_parent_type_def addFinding_def split: if_splits sum.splits)

lemma compare_resource_reference_severity:
  "f \<in> set (snd (compare_resource_reference orig u [])) \<Longrightarrow> severity f \<noteq> PATCH"
  by (cases "child_type orig"; cases "child_type u")
     (auto simp: compare_resource_reference_def is_parent_type_def addFinding_def Let_def
        split: if_splits option.splits sum.splits)

lemma compare_present_severity:
  assumes "f \<in> set (snd (compare_present orig u []))"
  shows "severity f \<noteq> PATCH"
proof (cases "name orig = name u")
  case False
  with assms show ?thesis by (auto simp: compare_present_eq addFinding_def)
next
  case True
  obtain r t where t: "check_type orig u [] = (r, t)" by (cases "check_type orig u []")
  have "f \<in> set (check_repeated orig u []) \<or> f \<in> set (check_required orig u [])
      \<or> f \<in> set t \<or> f \<in> set (check_oneof orig u [])
      \<or> f \<in> set (snd (compare_resource_reference orig u []))"
    using assms True t by (cases r) (auto simp: compare_present_eq)
  then show ?thesis
    using check_repeated_severity check_required_severity check_oneof_severity
      check_type_severity [of f orig u] compare_resource_reference_severity t
    by auto
qed

lemma compare_enum_value_severity:
  "f \<in> set (snd (compare_enum_value a b [])) \<Longrightarrow> severity f \<noteq> PATCH"
  by (auto simp: compare_enum_value_def addFinding_def split: if_splits option.splits)

text \<open>
  C8. Every finding the field comparator emits, and every finding the enum value comparator
  emits, has severity MAJOR or MINOR, whatever the inputs and however the run ends; none has
  severity PATCH.
\<close>

theorem no_patch_findings:
  "(\<forall>f \<in> set (snd (run_compare original upd)). severity f = MAJOR \<or> severity f = MINOR)
   \<and> (\<forall>f \<in> set (snd (compare_enum_value enum_original enum_upd [])).
          severity f = MAJOR \<or> severity f = MINOR)"
proof -
  have m: "s \<noteq> PATCH \<Longrightarrow> s = MAJOR \<or> s = MINOR" for s by (cases s) simp_all
  have "severity f \<noteq> PATCH" if "f \<in> set (snd (run_compare original upd))" for f
  proof (cases original)
    case None
    with that show ?thesis
      by (cases upd) (auto simp: run_compare_def compare_def addFinding_def)
  next
    case (Some orig)
    show ?thesis
    proof (cases upd)
      case None
      with Some that show ?thesis by (auto simp: run_compare_def compare_def addFinding_def)
    next
      case (Some u)
      with \<open>original = Some orig\<close> that show ?thesis
        using compare_present_severity [of f orig u] by (simp add: run_compare_present)
    qed
  qed
  then show ?thesis using m compare_enum_value_severity by blast
qed

theorem no_patch_findings_witness:
  "list_all (\<lambda>f. severity f = MAJOR \<or> severity f = MINOR)
     (snd (run_compare (Some removed_ref_original) (Some removed_ref_update)))
   \<and> snd (run_compare (Some removed_ref_original) (Some removed_ref_update)) \<noteq> []
   \<and> list_all (\<lambda>f. severity f = MAJOR \<or> severity f = MINOR)
     (snd (compare_enum_value None
        (Some \<lparr>ev_name = ''X'', ev_proto_file_name = ''foo'', ev_source_code_line = 4\<rparr>) []))
   \<and> snd (compare_enum_value None
        (Some \<lparr>ev_name = ''X'', ev_proto_file_name = ''foo'', ev_source_code_line = 4\<rparr>) []) \<noteq> []"
proof -
  have ne: "snd (run_compare (Some removed_ref_original) (Some removed_ref_update)) \<noteq> []"
    by (simp add: run_compare_present compare_present_eq removed_ref_original_def
        removed_ref_update_def base_field_def check_type_def check_repeated_def
        check_required_def check_oneof_def compare_resource_reference_def
        resource_ref_in_local_def addFinding_def)
  have ne': "snd (compare_enum_value None
        (Some \<lparr>ev_name = ''X'', ev_proto_file_name = ''foo'', ev_source_code_line = 4\<rparr>) []) \<noteq> []"
    by (simp add: compare_enum_value_def addFinding_def)
  from no_patch_findings [of "Some removed_ref_original" "Some removed_ref_update" None
      "Some \<lparr>ev_name = ''X'', ev_proto_file_name = ''foo'', ev_source_code_line = 4\<rparr>"]
  show ?thesis using ne ne' by (simp add: list_all_iff)
qed

section \<open>Location of the findings\<close>

lemma check_repeated_located: "f \<in> set (check_repeated orig u []) \<Longrightarrow> located orig u f"
  by (auto simp: check_repeated_def addFinding_def located_def split: if_splits)

lemma check_required_located: "f \<in> set (check_required orig u []) \<Longrightarrow> located orig u f"
  by (auto simp: check_required_def addFinding_def located_def split: if_splits)

lemma check_oneof_located: "f \<in> set (check_oneof orig u []) \<Longrightarrow> located orig u f"
  by (auto simp: check_oneof_def addFinding_def Let_def located_def split: if_splits)

lemma check_map_type_located:
  "f \<in> set (snd (check_map_type orig u a b [])) \<Longrightarrow> type_name u = Some b \<Longrightarrow>
   loc_value (proto_type orig) = loc_value (proto_type u) \<Longrightarrow> located orig u f"
  by (auto simp: check_map_type_def addFinding_def located_def
        split: if_splits option.splits sum.splits)

lemma check_type_located:
  assumes "f \<in> set (snd (check_type orig u []))"
  shows "located orig u f"
proof (cases "loc_value (proto_type orig) = loc_value (proto_type u)")
  case False
  with assms show ?thesis
    by (auto simp: check_type_def addFinding_def located_def)
next
  case True
  show ?thesis
  proof (cases "type_name orig")
    case None
    with True assms show ?thesis by (simp add: check_type_def)
  next
    case (Some a)
    show ?thesis
    proof (cases "type_name u")
      case None
      with True Some assms show ?thesis by (simp add: check_type_def)
    next
      case (Some b)
      show ?thesis
      proof (cases "loc_value a = loc_value b")
        case True
        with \<open>loc_value (proto_type orig) = loc_value (proto_type u)\<close>
          \<open>type_name orig = Some a\<close> Some assms
        have "f \<in> set (snd (check_map_type orig u a b []))"
          by (simp add: check_type_def)
        then show ?thesis
          using Some \<open>loc_value (proto_type orig) = loc_value (proto_type u)\<close>
          by (rule check_map_type_located)
      next
        case False
        with \<open>loc_value (proto_type orig) = loc_value (proto_type u)\<close>
          \<open>type_name orig = Some a\<close> Some assms
        show ?thesis
          by (auto simp: check_type_def addFinding_def located_def
                split: if_splits sum.splits)
      qed
    qed
  qed
qed

lemma compare_resource_reference_located:
  "f \<in> set (snd (compare_resource_reference orig u [])) \<Longrightarrow> located orig u f"
  by (cases "child_type orig"; cases "child_type u")
     (auto simp: compare_resource_reference_def is_parent_type_def addFinding_def Let_def
        located_def split: if_splits option.splits sum.splits)

lemma compare_present_located:
  assumes "f \<in> set (snd (compare_present orig u []))"
  shows "located orig u f"
proof (cases "name orig = name u")
  case False
  with assms show ?thesis
    by (auto simp: compare_present_eq addFinding_def located_def)
next
  case True
  obtain r t where t: "check_type orig u [] = (r, t)" by (cases "check_type orig u []")
  have "f \<in> set (check_repeated orig u []) \<or> f \<in> set (check_required orig u [])
      \<or> f \<in> set t \<or> f \<in> set (check_oneof orig u [])
      \<or> f \<in> set (snd (compare_resource_reference orig u []))"
    using assms True t by (cases r) (auto simp: compare_present_eq)
  then show ?thesis
    using check_repeated_located check_required_located check_oneof_located
      check_type_located [of f orig u] compare_resource_reference_located t
    by auto
qed

lemma run_compare_relabelled:
  "run_compare (Some removed_ref_original) (Some relabelled_update) =
     (Returned,
      [\<lparr>category = FIELD_REPEATED_CHANGE, finding_file = ''v1beta1/foo.proto'',
        finding_line = 11,
        message = ''Repeated state of an existing field `my_field` is changed.'',
        severity = MAJOR\<rparr>,
       \<lparr>category = RESOURCE_REFERENCE_REMOVAL, finding_file = ''v1/foo.proto'',
        finding_line = 7,
        message = ''A resource reference option of the field `my_field` is removed.'',
        severity = MAJOR\<rparr>])"
  by (simp add: run_compare_present compare_present_eq removed_ref_original_def
        relabelled_update_def base_field_def check_type_def check_repeated_def
        check_required_def check_oneof_def compare_resource_reference_def
        resource_ref_in_local_def addFinding_def)

text \<open>
  C6, as stated: every finding carries the file name and source line of the updated field,
  except where the updated field is absent. The statement fails twice on one comparison of two
  present fields, the update standing at line 10 of \<^verbatim>\<open>v1beta1/foo.proto\<close>. The
  finding for the changed repeated state is in that file but at line 11, the line of the
  label and not of the field. The finding for the dropped resource reference is in the file
  of the original, \<^verbatim>\<open>v1/foo.proto\<close>, at line 7, the line of the original annotation.
\<close>

theorem finding_locations_counterexample:
  "proto_file_name relabelled_update = ''v1beta1/foo.proto''
   \<and> source_code_line relabelled_update = 10
   \<and> map (\<lambda>f. (category f, finding_file f, finding_line f))
        (snd (run_compare (Some removed_ref_original) (Some relabelled_update))) =
      [(FIELD_REPEATED_CHANGE, ''v1beta1/foo.proto'', 11),
       (RESOURCE_REFERENCE_REMOVAL, ''v1/foo.proto'', 7)]
   \<and> \<not> (\<forall>f \<in> set (snd (run_compare (Some removed_ref_original) (Some relabelled_update))).
        finding_file f = proto_file_name relabelled_update
        \<and> finding_line f = source_code_line relabelled_update)"
  by (simp add: run_compare_relabelled) (simp add: relabelled_update_def base_field_def)

text \<open>
  C6, amended. The finding of a field addition carries the file name and source line of the
  updated field, the finding of a pure field removal those of the original field. When both
  fields are present, every finding but that of a removed resource reference carries the file
  name of the updated field, and its line is fixed by the step that emits it: the line of the
  updated field for a name change (FIELD_NAME_CHANGE) and for the oneof and proto3-optional
  findings; the line of the updated \<^verbatim>\<open>repeated\<close> attribute for FIELD_REPEATED_CHANGE; the
  line of the updated \<^verbatim>\<open>required\<close> attribute for FIELD_BEHAVIOR_CHANGE; for
  FIELD_TYPE_CHANGE the line of the updated \<^verbatim>\<open>proto_type\<close> when the proto types differ
  and the line of the updated \<^verbatim>\<open>type_name\<close> otherwise; the line of the updated
  \<^verbatim>\<open>resource_reference\<close> for RESOURCE_REFERENCE_ADDITION and RESOURCE_REFERENCE_CHANGE.
  The finding of a removed resource reference (RESOURCE_REFERENCE_REMOVAL) carries the file
  name of the original field and the line of the original \<^verbatim>\<open>resource_reference\<close>.
  No other category is emitted for two present fields.
\<close>

theorem finding_locations:
  "(\<forall>f \<in> set (snd (run_compare None (Some u))).
       finding_file f = proto_file_name u \<and> finding_line f = source_code_line u)
   \<and> (\<forall>f \<in> set (snd (run_compare (Some orig) None)).
       finding_file f = proto_file_name orig \<and> finding_line f = source_code_line orig)
   \<and> (\<forall>f \<in> set (snd (run_compare (Some orig) (Some u))).
       case category f of
         FIELD_NAME_CHANGE \<Rightarrow>
           finding_file f = proto_file_name u \<and> finding_line f = source_code_line u
       | FIELD_REPEATED_CHANGE \<Rightarrow>
           finding_file f = proto_file_name u
           \<and> finding_line f = loc_source_code_line (repeated u)
       | FIELD_BEHAVIOR_CHANGE \<Rightarrow>
           finding_file f = proto_file_name u
           \<and> finding_line f = loc_source_code_line (required u)
       | FIELD_TYPE_CHANGE \<Rightarrow>
           finding_file f = proto_file_name u
           \<and> (if loc_value (proto_type orig) \<noteq> loc_value (proto_type u)
              then finding_line f = loc_source_code_line (proto_type u)
              else Some (finding_line f) = map_option loc_source_code_line (type_name u))
       | FIELD_ONEOF_REMOVAL \<Rightarrow>
           finding_file f = proto_file_name u \<and> finding_line f = source_code_line u
       | FIELD_ONEOF_ADDITION \<Rightarrow>
           finding_file f = proto_file_name u \<and> finding_line f = source_code_line u
       | FIELD_PROTO3_OPTIONAL_CHANGE \<Rightarrow>
           finding_file f = proto_file_name u \<and> finding_line f = source_code_line u
       | RESOURCE_REFERENCE_ADDITION \<Rightarrow>
           finding_file f = proto_file_name u
           \<and> Some (finding_line f) = map_option loc_source_code_line (resource_reference u)
       | RESOURCE_REFERENCE_CHANGE \<Rightarrow>
           finding_file f = proto_file_name u
           \<and> Some (finding_line f) = map_option loc_source_code_line (resource_reference u)
       | RESOURCE_REFERENCE_REMOVAL \<Rightarrow>
           finding_file f = proto_file_name orig
           \<and> Some (finding_line f) = map_option loc_source_code_line (resource_reference orig)
       | FIELD_ADDITION \<Rightarrow> False
       | FIELD_REMOVAL \<Rightarrow> False
       | ENUM_VALUE_ADDITION \<Rightarrow> False
       | ENUM_VALUE_REMOVAL \<Rightarrow> False
       | ENUM_VALUE_NAME_CHANGE \<Rightarrow> False)"
proof -
  have "located orig u f" if "f \<in> set (snd (run_compare (Some orig) (Some u)))" for f
    using that compare_present_located [of f orig u] by (simp add: run_compare_present)
  then have both: "\<forall>f \<in> set (snd (run_compare (Some orig) (Some u))). located orig u f"
    by blast
  have added: "\<forall>f \<in> set (snd (run_compare None (Some u))).
       finding_file f = proto_file_name u \<and> finding_line f = source_code_line u"
    by (simp add: run_compare_def compare_def addFinding_def)
  have removed: "\<forall>f \<in> set (snd (run_compare (Some orig) None)).
       finding_file f = proto_file_name orig \<and> finding_line f = source_code_line orig"
    by (simp add: run_compare_def compare_def addFinding_def)
  from added removed both show ?thesis
    unfolding located_def by blast
qed

theorem finding_locations_witness:
  "snd (run_compare (Some removed_ref_original) (Some relabelled_update)) =
     [\<lparr>category = FIELD_REPEATED_CHANGE, finding_file = ''v1beta1/foo.proto'',
       finding_line = 11,
       message = ''Repeated state of an existing field `my_field` is changed.'',
       severity = MAJOR\<rparr>,
      \<lparr>category = RESOURCE_REFERENCE_REMOVAL, finding_file = ''v1/foo.proto'',
       finding_line = 7,
       message = ''A resource reference option of the field `my_field` is removed.'',
       severity = MAJOR\<rparr>]
   \<and> proto_file_name relabelled_update = ''v1beta1/foo.proto''
   \<and> loc_source_code_line (repeated relabelled_update) = 11
   \<and> proto_file_name removed_ref_original = ''v1/foo.proto''
   \<and> map_option loc_source_code_line (resource_reference removed_ref_original) = Some 7"
  using finding_locations [of relabelled_update removed_ref_original]
  by (simp add: run_compare_relabelled)

section \<open>Version tolerance of the type name\<close>

text \<open>Only step 5 emits findings of category FIELD_TYPE_CHANGE.\<close>

lemma check_repeated_category:
  "f \<in> set (check_repeated orig u []) \<Longrightarrow> category f \<noteq> FIELD_TYPE_CHANGE"
  by (auto simp: check_repeated_def addFinding_def split: if_splits)

lemma check_required_category:
  "f \<in> set (check_required orig u []) \<Longrightarrow> category f \<noteq> FIELD_TYPE_CHANGE"
  by (auto simp: check_required_def addFinding_def split: if_splits)

lemma check_oneof_category:
  "f \<in> set (check_oneof orig u []) \<Longrightarrow> category f \<noteq> FIELD_TYPE_CHANGE"
  by (auto simp: check_oneof_def addFinding_def Let_def split: if_splits)

lemma compare_resource_reference_category:
  "f \<in> set (snd (compare_resource_reference orig u [])) \<Longrightarrow> category f \<noteq> FIELD_TYPE_CHANGE"
  by (cases "child_type orig"; cases "child_type u")
     (auto simp: compare_resource_reference_def is_parent_type_def addFinding_def Let_def
        split: if_splits option.splits sum.splits)

lemma type_changes_of_run:
  assumes "name orig = name u" and "check_type orig u [] = (r, t)"
  shows "filter (\<lambda>f. category f = FIELD_TYPE_CHANGE) (snd (run_compare (Some orig) (Some u)))
       = filter (\<lambda>f. category f = FIELD_TYPE_CHANGE) t"
proof -
  let ?P = "\<lambda>f. category f = FIELD_TYPE_CHANGE"
  have a: "filter ?P (check_repeated orig u []) = []"
    using check_repeated_category [of _ orig u] by (auto simp: filter_empty_conv)
  have b: "filter ?P (check_required orig u []) = []"
    using check_required_category [of _ orig u] by (auto simp: filter_empty_conv)
  have c: "filter ?P (check_oneof orig u []) = []"
    using check_oneof_category [of _ orig u] by (auto simp: filter_empty_conv)
  have d: "filter ?P (snd (compare_resource_reference orig u [])) = []"
    using compare_resource_reference_category [of _ orig u] by (auto simp: filter_empty_conv)
  show ?thesis
    using assms a b c d
    by (cases r) (simp_all add: run_compare_present compare_present_eq)
qed

lemma check_type_type_name_branch:
  assumes "loc_value (proto_type orig) = loc_value (proto_type u)"
    and "type_name orig = Some a" and "type_name u = Some b"
    and "loc_value a \<noteq> loc_value b"
  shows "check_type orig u [] =
     (case transformed_type_name orig u (loc_value a) of
        Inl e \<Rightarrow> (Raised e, [])
      | Inr transformed \<Rightarrow>
          (Returned,
           if \<not> truthy transformed \<or> transformed \<noteq> Some (loc_value b)
           then [type_name_change_finding orig u a b] else []))"
  using assms
  by (simp add: check_type_def addFinding_def type_name_change_finding_def split: sum.splits)





text \<open>
  C10. For two present fields with equal names and equal proto_type whose type names differ,
  an original field without api_version always gets exactly one FIELD_TYPE_CHANGE finding with
  severity MAJOR, whatever the api_version of the update: no substitution is tried.
\<close>

theorem absent_original_version:
  assumes "name orig = name u"
    and "loc_value (proto_type orig) = loc_value (proto_type u)"
    and "type_name orig = Some a" and "type_name u = Some b"
    and "loc_value a \<noteq> loc_value b"
    and "api_version orig = None"
  shows "filter (\<lambda>f. category f = FIELD_TYPE_CHANGE) (snd (run_compare (Some orig) (Some u))) =
     [\<lparr>category = FIELD_TYPE_CHANGE, finding_file = proto_file_name u,
       finding_line = loc_source_code_line b,
       message = ''Type of an existing field `'' @ name orig @ ''` is changed from `''
                 @ loc_value a @ ''` to `'' @ loc_value b @ ''`.'',
       severity = MAJOR\<rparr>]"
proof -
  have "check_type orig u [] = (Returned, [type_name_change_finding orig u a b])"
    using assms(6)
    by (simp add: check_type_type_name_branch [OF assms(2-5)] transformed_type_name_def
          truthy_def)
  from type_changes_of_run [OF assms(1) this] show ?thesis
    by (simp add: type_name_change_finding_def)
qed

theorem absent_original_version_witness:
  "filter (\<lambda>f. category f = FIELD_TYPE_CHANGE)
     (snd (run_compare (Some (enum_field None ''.pkg.v1.Enum''))
                       (Some (enum_field (Some ''v1beta1'') ''.pkg.v1beta1.Enum'')))) =
     [\<lparr>category = FIELD_TYPE_CHANGE, finding_file = ''foo'', finding_line = 12,
       message = ''Type of an existing field `my_field` is changed from `.pkg.v1.Enum` to `.pkg.v1beta1.Enum`.'',
       severity = MAJOR\<rparr>]"
  using absent_original_version [of "enum_field None ''.pkg.v1.Enum''"
      "enum_field (Some ''v1beta1'') ''.pkg.v1beta1.Enum''"
      "\<lparr>loc_value = ''.pkg.v1.Enum'', loc_source_code_line = 12\<rparr>"
      "\<lparr>loc_value = ''.pkg.v1beta1.Enum'', loc_source_code_line = 12\<rparr>"]
  by (simp add: enum_field_def base_field_def)

section \<open>The resource reference resolver\<close>

lemmas resolver_defs =
  compare_resource_reference_def is_parent_type_def resource_in_database_def
  resource_ref_in_local_def call_method_def addFinding_def truthy_def py_or_def py_str_def
  contract_database_def project_database_def empty_database_def project_resource_def
  child_type_field_def type_field_def malformed_field_def plain_field_def base_field_def

text \<open>
  C2, as stated: with a flipped discriminant the parents of the child type are looked up in the
  database of the side that is not the child side. In the source the original being the child
  selects the database of the original, and the update being the child selects the database of
  the update. Here the original is the child; the database of the update knows no parent of
  \<^verbatim>\<open>example.com/Topic\<close>, so the statement asks for a finding, and the resolver, reading
  the database of the original, emits none.
\<close>

theorem flipped_discriminant_counterexample:
  "call_method (resource_database (type_field (Some empty_database)))
     ''get_parent_resources_by_child_type'' (Some ''example.com/Topic'') = Inr []
   \<and> compare_resource_reference (child_type_field (Some project_database))
        (type_field (Some empty_database)) [] = (Returned, [])"
  by (simp add: resolver_defs)

text \<open>
  C2, amended. When both fields carry a resource reference and their discriminants differ,
  exactly one side is the child side. The resolver asks the database of that child side for
  the parent resources of its child type. When the database answers, the resolver returns:
  with no finding if one of the parents has the type of the other side's reference, and
  otherwise with exactly one RESOURCE_REFERENCE_CHANGE finding of severity MAJOR, located at
  the updated annotation, whose message says that the pair cannot be resolved to the
  identical resource.
\<close>

theorem flipped_discriminant:
  assumes "resource_reference orig = Some ro" and "resource_reference u = Some ru"
    and "child_type orig \<noteq> child_type u"
    and "call_method (resource_database (if child_type orig then orig else u))
           ''get_parent_resources_by_child_type''
           (ref_child_type (loc_value (if child_type orig then ro else ru))) = Inr parents"
  shows "compare_resource_reference orig u fc =
     (Returned,
      if list_ex (\<lambda>p. Some (res_type (loc_value p))
                       = ref_type (loc_value (if child_type orig then ru else ro))) parents
      then fc
      else fc @
        [\<lparr>category = RESOURCE_REFERENCE_CHANGE, finding_file = proto_file_name u,
          finding_line = loc_source_code_line ru,
          message = ''The child_type `''
            @ py_str (ref_child_type (loc_value (if child_type orig then ro else ru)))
            @ ''` and type `''
            @ py_str (ref_type (loc_value (if child_type orig then ru else ro)))
            @ ''` of resource reference option in field `'' @ name orig
            @ ''` cannot be resolved to the identical resource.'',
          severity = MAJOR\<rparr>])"
  using assms
  by (cases "child_type orig"; cases "child_type u")
     (simp_all add: compare_resource_reference_def is_parent_type_def addFinding_def)

theorem flipped_discriminant_witness:
  "compare_resource_reference (child_type_field (Some project_database))
     (type_field (Some empty_database)) [] = (Returned, [])
   \<and> compare_resource_reference (type_field (Some project_database))
     (child_type_field (Some empty_database)) [] =
     (Returned,
      [\<lparr>category = RESOURCE_REFERENCE_CHANGE, finding_file = ''foo'', finding_line = 7,
        message = ''The child_type `example.com/Topic` and type `example.com/Project` of resource reference option in field `my_field` cannot be resolved to the identical resource.'',
        severity = MAJOR\<rparr>])"
proof -
  have 1: "compare_resource_reference (child_type_field (Some project_database))
     (type_field (Some empty_database)) [] = (Returned, [])"
    using flipped_discriminant [of "child_type_field (Some project_database)"
        "\<lparr>loc_value = \<lparr>ref_type = None, ref_child_type = Some ''example.com/Topic''\<rparr>,
          loc_source_code_line = 7\<rparr>"
        "type_field (Some empty_database)"
        "\<lparr>loc_value = \<lparr>ref_type = Some ''example.com/Project'', ref_child_type = None\<rparr>,
          loc_source_code_line = 8\<rparr>"
        "[project_resource]" "[]"]
    by (simp add: child_type_field_def type_field_def base_field_def call_method_def
          project_database_def contract_database_def project_resource_def)
  have 2: "compare_resource_reference (type_field (Some project_database))
     (child_type_field (Some empty_database)) [] =
     (Returned,
      [\<lparr>category = RESOURCE_REFERENCE_CHANGE, finding_file = ''foo'', finding_line = 7,
        message = ''The child_type `example.com/Topic` and type `example.com/Project` of resource reference option in field `my_field` cannot be resolved to the identical resource.'',
        severity = MAJOR\<rparr>])"
    using flipped_discriminant [of "type_field (Some project_database)"
        "\<lparr>loc_value = \<lparr>ref_type = Some ''example.com/Project'', ref_child_type = None\<rparr>,
          loc_source_code_line = 8\<rparr>"
        "child_type_field (Some empty_database)"
        "\<lparr>loc_value = \<lparr>ref_type = None, ref_child_type = Some ''example.com/Topic''\<rparr>,
          loc_source_code_line = 7\<rparr>"
        "[]" "[]"]
    by (simp add: child_type_field_def type_field_def base_field_def call_method_def
          empty_database_def contract_database_def py_str_def)
  from 1 2 show ?thesis by simp
qed

text \<open>
  C4 asks for a fault whenever a reference with neither \<^verbatim>\<open>type\<close> nor
  \<^verbatim>\<open>child_type\<close> reaches the resolver. The source raises in one place only,
  \<^verbatim>\<open>_resource_ref_in_local\<close>, after the early return for an update without message
  resource. Evaluated on such a reference: its addition, its removal when the update has no
  message resource, and a change against it in either discriminant case each return with an
  ordinary finding; only its removal from a field whose update has a message resource raises.
\<close>

theorem malformed_reference_not_rejected:
  "compare_resource_reference (plain_field None None) (malformed_field (Some project_database)) [] =
     (Returned,
      [\<lparr>category = RESOURCE_REFERENCE_ADDITION, finding_file = ''foo'', finding_line = 9,
        message = ''A resource reference option is added to the field `my_field`, but it is not defined anywhere'',
        severity = MAJOR\<rparr>])
   \<and> compare_resource_reference (malformed_field (Some project_database))
        (plain_field None (Some project_database)) [] =
     (Returned,
      [\<lparr>category = RESOURCE_REFERENCE_REMOVAL, finding_file = ''foo'', finding_line = 9,
        message = ''A resource reference option of the field `my_field` is removed.'',
        severity = MAJOR\<rparr>])
   \<and> compare_resource_reference (malformed_field (Some project_database))
        (type_field (Some project_database)) [] =
     (Returned,
      [\<lparr>category = RESOURCE_REFERENCE_CHANGE, finding_file = ''foo'', finding_line = 8,
        message = ''The type of resource reference option of the field `my_field` is changed from `None` to `example.com/Project`.'',
        severity = MAJOR\<rparr>])
   \<and> compare_resource_reference (malformed_field (Some project_database))
        (child_type_field (Some project_database)) [] =
     (Returned,
      [\<lparr>category = RESOURCE_REFERENCE_CHANGE, finding_file = ''foo'', finding_line = 7,
        message = ''The child_type `example.com/Topic` and type `None` of resource reference option in field `my_field` cannot be resolved to the identical resource.'',
        severity = MAJOR\<rparr>])
   \<and> compare_resource_reference (malformed_field (Some project_database))
        (plain_field (Some project_resource) (Some project_database)) [] =
     (Raised (TypeError
        ''In a resource_reference annotation, either `type` or `child_type` field should be defined''),
      [])"
  by (simp add: resolver_defs)

text \<open>
  C5 asks that an absent resource database is a negative lookup in every branch. Evaluated
  without databases: the addition check returns and reports the reference as not defined
  anywhere; the removal check of a child-type reference and the parent check of the flipped
  discriminant, in both directions, call a method on \<open>None\<close> and raise.
\<close>

theorem absent_database_raises:
  "compare_resource_reference (plain_field None None) (type_field None) [] =
     (Returned,
      [\<lparr>category = RESOURCE_REFERENCE_ADDITION, finding_file = ''foo'', finding_line = 8,
        message = ''A resource reference option is added to the field `my_field`, but it is not defined anywhere'',
        severity = MAJOR\<rparr>])
   \<and> compare_resource_reference (child_type_field None)
        (plain_field (Some project_resource) None) [] =
     (Raised (AttributeError ''get_parent_resources_by_child_type''), [])
   \<and> compare_resource_reference (child_type_field None) (type_field None) [] =
     (Raised (AttributeError ''get_parent_resources_by_child_type''), [])
   \<and> compare_resource_reference (type_field None) (child_type_field None) [] =
     (Raised (AttributeError ''get_parent_resources_by_child_type''), [])"
  by (simp add: resolver_defs)

text \<open>
  C7 asks that only the two declared operations are called. The addition check of a child-type
  reference calls \<^verbatim>\<open>get_parent_resource_by_child_type\<close>, a third name: on a database
  that offers exactly the two declared operations the call raises, while the addition check of
  a type reference, which calls \<^verbatim>\<open>get_resource_by_type\<close>, returns.
\<close>

theorem undeclared_database_operation:
  "compare_resource_reference (plain_field None (Some project_database))
     (child_type_field (Some project_database)) [] =
     (Raised (AttributeError ''get_parent_resource_by_child_type''), [])
   \<and> compare_resource_reference (plain_field None (Some project_database))
     (type_field (Some project_database)) [] =
     (Returned,
      [\<lparr>category = RESOURCE_REFERENCE_ADDITION, finding_file = ''foo'', finding_line = 8,
        message = ''A resource reference option is added to the field `my_field`.'',
        severity = MINOR\<rparr>])"
  by (simp add: resolver_defs)

end
